theory Spec2Isabelle
  imports Complex_Main
begin

section \<open>JavaScript numbers\<close>

text \<open>
  Every numeric field of the application is a JavaScript \<open>number\<close>. The model keeps
  the four kinds of value that decide the control flow of the code: a finite value, the two
  infinities and NaN. The operations \<open>js_add\<close>, \<open>js_mul\<close> and \<open>js_div\<close> of this
  section compute on finite values exactly, as rationals; the operations \<open>fl_add\<close>,
  \<open>fl_mul\<close> and \<open>fl_div\<close> of the next section round each result to binary64 as the
  runtime does. The sign of zero is outside the model (a zero divisor is taken as \<open>+0\<close>).
\<close>

datatype jsnum = Fin rat | PosInf | NegInf | NaN


fun js_neg :: "jsnum \<Rightarrow> jsnum" where
  "js_neg (Fin a) = Fin (- a)"
| "js_neg PosInf = NegInf"
| "js_neg NegInf = PosInf"
| "js_neg NaN = NaN"

fun js_add :: "jsnum \<Rightarrow> jsnum \<Rightarrow> jsnum" where
  "js_add (Fin a) (Fin b) = Fin (a + b)"
| "js_add NaN _ = NaN"
| "js_add _ NaN = NaN"
| "js_add PosInf NegInf = NaN"
| "js_add NegInf PosInf = NaN"
| "js_add PosInf _ = PosInf"
| "js_add NegInf _ = NegInf"
| "js_add (Fin _) PosInf = PosInf"
| "js_add (Fin _) NegInf = NegInf"

definition js_sub :: "jsnum \<Rightarrow> jsnum \<Rightarrow> jsnum" where
  "js_sub a b = js_add a (js_neg b)"

text \<open>The sign of a product or quotient with an infinite operand.\<close>

definition signed_inf :: "bool \<Rightarrow> jsnum" where
  "signed_inf positive = (if positive then PosInf else NegInf)"

fun js_mul :: "jsnum \<Rightarrow> jsnum \<Rightarrow> jsnum" where
  "js_mul (Fin a) (Fin b) = Fin (a * b)"
| "js_mul NaN _ = NaN"
| "js_mul _ NaN = NaN"
| "js_mul (Fin a) PosInf = (if a = 0 then NaN else signed_inf (0 < a))"
| "js_mul (Fin a) NegInf = (if a = 0 then NaN else signed_inf (a < 0))"
| "js_mul PosInf (Fin b) = (if b = 0 then NaN else signed_inf (0 < b))"
| "js_mul NegInf (Fin b) = (if b = 0 then NaN else signed_inf (b < 0))"
| "js_mul PosInf PosInf = PosInf"
| "js_mul NegInf NegInf = PosInf"
| "js_mul PosInf NegInf = NegInf"
| "js_mul NegInf PosInf = NegInf"

fun js_div :: "jsnum \<Rightarrow> jsnum \<Rightarrow> jsnum" where
  "js_div (Fin a) (Fin b) =
     (if b = 0 then (if a = 0 then NaN else signed_inf (0 < a)) else Fin (a / b))"
| "js_div NaN _ = NaN"
| "js_div _ NaN = NaN"
| "js_div (Fin _) PosInf = Fin 0"
| "js_div (Fin _) NegInf = Fin 0"
| "js_div PosInf (Fin b) = signed_inf (0 \<le> b)"
| "js_div NegInf (Fin b) = signed_inf (b < 0)"
| "js_div PosInf PosInf = NaN"
| "js_div PosInf NegInf = NaN"
| "js_div NegInf PosInf = NaN"
| "js_div NegInf NegInf = NaN"

text \<open>Relational operators: every comparison with NaN is false.\<close>

fun js_lt :: "jsnum \<Rightarrow> jsnum \<Rightarrow> bool" where
  "js_lt (Fin a) (Fin b) = (a < b)"
| "js_lt NaN _ = False"
| "js_lt _ NaN = False"
| "js_lt PosInf _ = False"
| "js_lt _ NegInf = False"
| "js_lt NegInf _ = True"
| "js_lt (Fin _) PosInf = True"

fun js_le :: "jsnum \<Rightarrow> jsnum \<Rightarrow> bool" where
  "js_le (Fin a) (Fin b) = (a \<le> b)"
| "js_le NaN _ = False"
| "js_le _ NaN = False"
| "js_le NegInf _ = True"
| "js_le _ PosInf = True"
| "js_le PosInf _ = False"
| "js_le (Fin _) NegInf = False"

definition js_gt :: "jsnum \<Rightarrow> jsnum \<Rightarrow> bool" where
  "js_gt a b = js_lt b a"

definition js_ge :: "jsnum \<Rightarrow> jsnum \<Rightarrow> bool" where
  "js_ge a b = js_le b a"

text \<open>Strict equality \<open>===\<close> on numbers: NaN is not equal to itself.\<close>

fun js_eq :: "jsnum \<Rightarrow> jsnum \<Rightarrow> bool" where
  "js_eq NaN _ = False"
| "js_eq _ NaN = False"
| "js_eq a b = (a = b)"

text \<open>\<open>Math.min\<close> of two numbers.\<close>

fun js_min :: "jsnum \<Rightarrow> jsnum \<Rightarrow> jsnum" where
  "js_min NaN _ = NaN"
| "js_min _ NaN = NaN"
| "js_min a b = (if js_le a b then a else b)"

text \<open>\<open>v || 0\<close> on an optional number: \<open>undefined\<close>, \<open>0\<close> and NaN are falsy.\<close>

fun or_zero :: "jsnum option \<Rightarrow> jsnum" where
  "or_zero None = Fin 0"
| "or_zero (Some NaN) = Fin 0"
| "or_zero (Some v) = v"

section \<open>Binary64 rounding\<close>

text \<open>
  A JavaScript number is an IEEE 754 binary64 value, and each of \<open>+\<close>, \<open>-\<close>, \<open>*\<close> and
  \<open>/\<close> returns the exact result rounded to the nearest binary64 value, ties to the
  value with an even significand.
\<close>

text \<open>The number of binary digits of a positive integer.\<close>

function bits :: "int \<Rightarrow> int" where
  "bits n = (if n \<le> 0 then 0 else 1 + bits (n div 2))"
  by pat_completeness auto
termination
  by (relation "measure nat") auto

declare bits.simps [simp del]

definition pow2 :: "int \<Rightarrow> rat" where
  "pow2 k = (if 0 \<le> k then 2 ^ nat k else 1 / 2 ^ nat (- k))"

text \<open>
  The binary exponent of a positive rational \<open>a\<close>: the \<open>e\<close> with
  \<open>pow2 e \<le> a < pow2 (e + 1)\<close>.
\<close>

definition exponent :: "rat \<Rightarrow> int" where
  "exponent a = (if 1 \<le> a then bits \<lfloor>a\<rfloor> - 1 else - bits (\<lceil>1 / a\<rceil> - 1))"

definition round_even :: "rat \<Rightarrow> int" where
  "round_even t =
     (let f = \<lfloor>t\<rfloor>; d = t - of_int f
      in if d < 1 / 2 then f else if 1 / 2 < d then f + 1 else if even f then f else f + 1)"

text \<open>
  Rounding to binary64. The significand has 53 bits, so the spacing of the values around
  \<open>x\<close> is \<open>pow2 (e - 52)\<close>, with \<open>e\<close> not below -1022 (subnormal range). The largest
  finite value is \<open>2 ^ 1024 - 2 ^ 971\<close>; from half a spacing above it the result is an
  infinity.
\<close>

definition b64 :: "rat \<Rightarrow> jsnum" where
  "b64 x =
     (if x = 0 then Fin 0
      else if 2 ^ 1024 - 2 ^ 970 \<le> \<bar>x\<bar> then signed_inf (0 < x)
      else (let e = max (exponent \<bar>x\<bar>) (- 1022);
                ulp = pow2 (e - 52)
            in Fin (sgn x * of_int (round_even (\<bar>x\<bar> / ulp)) * ulp)))"

fun rounded :: "jsnum \<Rightarrow> jsnum" where
  "rounded (Fin x) = b64 x"
| "rounded v = v"

definition fl_add :: "jsnum \<Rightarrow> jsnum \<Rightarrow> jsnum" where
  "fl_add a b = rounded (js_add a b)"

definition fl_sub :: "jsnum \<Rightarrow> jsnum \<Rightarrow> jsnum" where
  "fl_sub a b = rounded (js_sub a b)"

definition fl_mul :: "jsnum \<Rightarrow> jsnum \<Rightarrow> jsnum" where
  "fl_mul a b = rounded (js_mul a b)"

definition fl_div :: "jsnum \<Rightarrow> jsnum \<Rightarrow> jsnum" where
  "fl_div a b = rounded (js_div a b)"

section \<open>Domain records\<close>

text \<open>
  Strings are sequences of UTF-16 code units. The records carry the fields that
  the modelled functions read.
\<close>

type_synonym jsstring = "nat list"

datatype ProductStatus = RUPTURA | RISCO | SEGURANCA | EXCESSO

record Product =
  p_id :: jsstring
  p_name :: jsstring
  p_cost :: jsnum
  p_stock :: jsnum

record Service =
  s_id :: jsstring
  s_name :: jsstring

datatype SaleTarget = ProductItem Product | ServiceItem Service

datatype ItemType = TProduct | TService

record SaleItem =
  si_item :: SaleTarget
  si_quantity :: jsnum
  si_type :: ItemType

record TicketSale =
  sale_items :: "SaleItem list"
  sale_total :: jsnum
  sale_timestamp :: jsnum

text \<open>\<open>item.item.id\<close>: both variants of the union have an \<open>id\<close>.\<close>

fun target_id :: "SaleTarget \<Rightarrow> jsstring" where
  "target_id (ProductItem p) = p_id p"
| "target_id (ServiceItem s) = s_id s"

section \<open>The sales map shared by the product list and the dashboard\<close>

text \<open>
  A JavaScript \<open>Map\<close> keeps its keys in insertion order; it is an association list
  without duplicate keys.
\<close>

type_synonym sales_map = "(jsstring \<times> jsnum) list"

fun map_set :: "jsstring \<Rightarrow> jsnum \<Rightarrow> sales_map \<Rightarrow> sales_map" where
  "map_set k v [] = [(k, v)]"
| "map_set k v ((k', v') # m) = (if k = k' then (k, v) # m else (k', v') # map_set k v m)"

definition map_get :: "sales_map \<Rightarrow> jsstring \<Rightarrow> jsnum option" where
  "map_get m k = map_of m k"

definition add_item :: "sales_map \<Rightarrow> SaleItem \<Rightarrow> sales_map" where
  "add_item m it =
     (if si_type it = TProduct
      then map_set (target_id (si_item it))
             (js_add (or_zero (map_get m (target_id (si_item it)))) (si_quantity it)) m
      else m)"

definition productSalesMap :: "TicketSale list \<Rightarrow> sales_map" where
  "productSalesMap sales = foldl (\<lambda>m sale. foldl add_item m (sale_items sale)) [] sales"

section \<open>Product list: status of every product\<close>

text \<open>
  \<open>productsWithMetrics\<close> of the product list. \<open>startOfMonth\<close> is the time value of the
  first instant of the current month and \<open>today\<close> is \<open>now.getDate()\<close>.
\<close>

definition productStatus :: "jsnum \<Rightarrow> jsnum \<Rightarrow> jsnum \<Rightarrow> ProductStatus" where
  "productStatus stock soldQty today =
     (if js_le stock (Fin 0) then RUPTURA
      else if js_gt soldQty (Fin 0) then
        (let dailySales = js_div soldQty today in
         if js_gt dailySales (Fin 0) then
           (let daysOfStock = js_div stock dailySales in
            if js_le daysOfStock (Fin 7) then RISCO
            else if js_le daysOfStock (Fin 30) then SEGURANCA
            else EXCESSO)
         else EXCESSO)
      else EXCESSO)"

record ProductWithMetrics =
  pm_product :: Product
  pm_status :: ProductStatus
  pm_turnover :: jsnum

definition productsWithMetrics ::
  "jsnum \<Rightarrow> jsnum \<Rightarrow> TicketSale list \<Rightarrow> Product list \<Rightarrow> ProductWithMetrics list" where
  "productsWithMetrics startOfMonth today ticketSales products =
     (let salesThisMonth = filter (\<lambda>sale. js_ge (sale_timestamp sale) startOfMonth) ticketSales;
          salesMap = productSalesMap salesThisMonth
      in map (\<lambda>p.
           (let soldQty = or_zero (map_get salesMap (p_id p));
                turnover = (if js_gt (p_stock p) (Fin 0) then js_div soldQty (p_stock p) else Fin 0)
            in \<lparr> pm_product = p,
                 pm_status = productStatus (p_stock p) soldQty today,
                 pm_turnover = turnover \<rparr>)) products)"

section \<open>The classifier as the specification words it\<close>

datatype InventoryStatus = OutOfStock | AtRisk | Healthy | Excess

fun status_name :: "ProductStatus \<Rightarrow> InventoryStatus" where
  "status_name RUPTURA = OutOfStock"
| "status_name RISCO = AtRisk"
| "status_name SEGURANCA = Healthy"
| "status_name EXCESSO = Excess"

text \<open>
  Steps 1 to 3 of the specification's algorithm, in its own order: the out-of-stock test,
  then the daily rate with its \<open>dailyRate <= 0\<close> exit, then the two thresholds.
\<close>

definition spec_classify :: "jsnum \<Rightarrow> jsnum \<Rightarrow> jsnum \<Rightarrow> InventoryStatus" where
  "spec_classify stock unitsSold daysElapsed =
     (if js_le stock (Fin 0) then OutOfStock
      else if js_gt unitsSold (Fin 0) then
        (let dailyRate = js_div unitsSold daysElapsed in
         if js_le dailyRate (Fin 0) then Excess
         else (let daysOfStockRemaining = js_div stock dailyRate in
               if js_le daysOfStockRemaining (Fin 7) then AtRisk
               else if js_le daysOfStockRemaining (Fin 30) then Healthy
               else Excess))
      else Excess)"

section \<open>Dashboard: the KPI computation\<close>

datatype TransactionType = INCOME | EXPENSE

datatype TransactionStatus = PENDING | PAID

datatype TransactionCategory =
  RENT | WATER | ELECTRICITY | INTERNET | TAXES | SALARY | PRODUCT_PURCHASE
  | SERVICE_REVENUE | SALES_REVENUE | SERVICE_COST | OTHER

record CashTransaction =
  tx_amount :: jsnum
  tx_type :: TransactionType
  tx_category :: TransactionCategory
  tx_status :: TransactionStatus
  tx_timestamp :: jsnum

record KpiGoals =
  predictedAvgMargin :: jsnum
  netProfit :: jsnum
  inventoryTurnoverGoal :: jsnum

record StockLevelSummary =
  ruptura :: nat
  risco :: nat
  seguranca :: nat
  excesso :: nat

record TopProduct =
  tp_id :: jsstring
  tp_name :: jsstring
  quantitySold :: jsnum
  currentStock :: jsnum
  turnoverRatio :: "jsnum option"

record SalesPeak =
  peak_date :: jsstring
  peak_total :: jsnum

text \<open>
  What the component reads from \<open>Date\<close> for the selected competency: the time values of
  \<open>startOfMonth\<close> and \<open>endOfMonth\<close>, whether the competency is the month of \<open>now\<close>,
  \<open>endOfMonth.getDate()\<close> and \<open>now.getDate()\<close>.
\<close>

record Period =
  startOfMonth :: jsnum
  endOfMonth :: jsnum
  isCurrentMonth :: bool
  daysInMonth :: jsnum
  nowDate :: jsnum

definition in_period :: "Period \<Rightarrow> jsnum \<Rightarrow> bool" where
  "in_period per d = (js_ge d (startOfMonth per) \<and> js_le d (endOfMonth per))"

definition salesThisMonth :: "Period \<Rightarrow> TicketSale list \<Rightarrow> TicketSale list" where
  "salesThisMonth per ticketSales = filter (\<lambda>sale. in_period per (sale_timestamp sale)) ticketSales"

definition transactionsThisMonth :: "Period \<Rightarrow> CashTransaction list \<Rightarrow> CashTransaction list" where
  "transactionsThisMonth per transactions = filter (\<lambda>t. in_period per (tx_timestamp t)) transactions"

definition daysPassed :: "Period \<Rightarrow> jsnum" where
  "daysPassed per =
     (if isCurrentMonth per then js_min (nowDate per) (daysInMonth per) else daysInMonth per)"

definition currentRevenue :: "TicketSale list \<Rightarrow> jsnum" where
  "currentRevenue sales = foldl (\<lambda>sum sale. js_add sum (sale_total sale)) (Fin 0) sales"

definition fixedCostCategories :: "TransactionCategory list" where
  "fixedCostCategories = [RENT, SALARY, TAXES, INTERNET, WATER, ELECTRICITY, OTHER]"

definition fixedCosts :: "CashTransaction list \<Rightarrow> jsnum" where
  "fixedCosts txs =
     foldl (\<lambda>sum t. js_add sum (tx_amount t)) (Fin 0)
       (filter (\<lambda>t. tx_type t = EXPENSE \<and> tx_category t \<in> set fixedCostCategories
                     \<and> tx_status t = PAID) txs)"

text \<open>\<open>saleItem.type === 'product' && 'cost' in saleItem.item\<close>: only a product has a cost.\<close>

fun itemCostStep :: "jsnum \<Rightarrow> SaleItem \<Rightarrow> jsnum" where
  "itemCostStep itemCost saleItem =
     (case si_item saleItem of
        ProductItem p \<Rightarrow>
          (if si_type saleItem = TProduct
           then js_add itemCost (js_mul (p_cost p) (si_quantity saleItem)) else itemCost)
      | ServiceItem s \<Rightarrow> itemCost)"

definition variableCostOfProductsSold :: "TicketSale list \<Rightarrow> jsnum" where
  "variableCostOfProductsSold sales =
     foldl (\<lambda>cogs sale. js_add cogs (foldl itemCostStep (Fin 0) (sale_items sale))) (Fin 0) sales"

definition variableCostOfServices :: "CashTransaction list \<Rightarrow> jsnum" where
  "variableCostOfServices txs =
     foldl (\<lambda>sum t. js_add sum (tx_amount t)) (Fin 0)
       (filter (\<lambda>t. tx_category t = SERVICE_COST \<and> tx_status t = PAID) txs)"

definition currentAvgContributionMargin :: "jsnum \<Rightarrow> jsnum \<Rightarrow> jsnum" where
  "currentAvgContributionMargin revenue totalVariableCosts =
     (if js_gt revenue (Fin 0)
      then js_mul (js_div (js_sub revenue totalVariableCosts) revenue) (Fin 100) else Fin 0)"

definition breakEvenPoint :: "jsnum \<Rightarrow> KpiGoals \<Rightarrow> jsnum" where
  "breakEvenPoint fixed goals =
     (let predictedMarginRatio = js_div (predictedAvgMargin goals) (Fin 100)
      in if js_gt predictedMarginRatio (Fin 0) then js_div fixed predictedMarginRatio else Fin 0)"

definition totalRevenueGoal :: "jsnum \<Rightarrow> KpiGoals \<Rightarrow> jsnum" where
  "totalRevenueGoal fixed goals = js_add (breakEvenPoint fixed goals) (netProfit goals)"

definition progressPercentage :: "jsnum \<Rightarrow> jsnum \<Rightarrow> jsnum" where
  "progressPercentage revenue goal =
     (if js_gt goal (Fin 0) then js_mul (js_div revenue goal) (Fin 100) else Fin 0)"

definition monthlyForecast :: "jsnum \<Rightarrow> jsnum \<Rightarrow> jsnum \<Rightarrow> jsnum" where
  "monthlyForecast revenue passed inMonth =
     (if js_gt passed (Fin 0) then js_mul (js_div revenue passed) inMonth else Fin 0)"

definition averageInventoryValue :: "Product list \<Rightarrow> jsnum" where
  "averageInventoryValue products =
     foldl (\<lambda>sum p. js_add sum (js_mul (p_cost p) (p_stock p))) (Fin 0) products"

definition actualInventoryTurnover :: "jsnum \<Rightarrow> jsnum \<Rightarrow> jsnum" where
  "actualInventoryTurnover monthlyCOGS avgValue =
     (if js_gt avgValue (Fin 0) then js_div monthlyCOGS avgValue else Fin 0)"

definition projectedInventoryTurnover :: "jsnum \<Rightarrow> jsnum \<Rightarrow> jsnum \<Rightarrow> jsnum \<Rightarrow> jsnum" where
  "projectedInventoryTurnover monthlyCOGS avgValue passed inMonth =
     (if js_gt avgValue (Fin 0) \<and> js_gt passed (Fin 0)
      then js_mul (js_div monthlyCOGS avgValue) (js_div inMonth passed) else Fin 0)"

subsection \<open>Revenue and the guarded ratios in binary64\<close>

text \<open>
  The expressions of \<open>currentRevenue\<close>, \<open>currentAvgContributionMargin\<close>,
  \<open>progressPercentage\<close>, \<open>monthlyForecast\<close>, \<open>actualInventoryTurnover\<close> and
  \<open>projectedInventoryTurnover\<close> once more, with every operation rounded as the runtime
  rounds it.
\<close>

definition currentRevenue64 :: "TicketSale list \<Rightarrow> jsnum" where
  "currentRevenue64 sales = foldl (\<lambda>sum sale. fl_add sum (sale_total sale)) (Fin 0) sales"



definition monthlyForecast64 :: "jsnum \<Rightarrow> jsnum \<Rightarrow> jsnum \<Rightarrow> jsnum" where
  "monthlyForecast64 revenue passed inMonth =
     (if js_gt passed (Fin 0) then fl_mul (fl_div revenue passed) inMonth else Fin 0)"



subsection \<open>Rankings\<close>

text \<open>
  \<open>Array.prototype.sort\<close> is stable. For a comparator that orders its arguments
  consistently every stable sort returns the same array; the model inserts from the right,
  moving an element past the ones it compares greater than.
\<close>

fun js_insert :: "('a \<Rightarrow> 'a \<Rightarrow> jsnum) \<Rightarrow> 'a \<Rightarrow> 'a list \<Rightarrow> 'a list" where
  "js_insert cmp x [] = [x]"
| "js_insert cmp x (y # ys) =
     (if js_gt (cmp x y) (Fin 0) then y # js_insert cmp x ys else x # y # ys)"

definition js_sort :: "('a \<Rightarrow> 'a \<Rightarrow> jsnum) \<Rightarrow> 'a list \<Rightarrow> 'a list" where
  "js_sort cmp xs = foldr (js_insert cmp) xs []"

definition N_A :: jsstring where
  "N_A = map of_char ''N/A''"

text \<open>\<open>products.find(p => p.id === productId)?.name || 'N/A'\<close>: the empty name is falsy.\<close>

definition found_name :: "Product list \<Rightarrow> jsstring \<Rightarrow> jsstring" where
  "found_name products productId =
     (case List.find (\<lambda>p. p_id p = productId) products of
        None \<Rightarrow> N_A
      | Some p \<Rightarrow> (if p_name p = [] then N_A else p_name p))"

definition found_stock :: "Product list \<Rightarrow> jsstring \<Rightarrow> jsnum" where
  "found_stock products productId =
     or_zero (map_option p_stock (List.find (\<lambda>p. p_id p = productId) products))"

definition top10SoldProducts :: "sales_map \<Rightarrow> Product list \<Rightarrow> TopProduct list" where
  "top10SoldProducts salesMap products =
     take 10 (js_sort (\<lambda>a b. js_sub (quantitySold b) (quantitySold a))
       (map (\<lambda>(productId, qty).
              \<lparr> tp_id = productId, tp_name = found_name products productId,
                quantitySold = qty, currentStock = found_stock products productId,
                turnoverRatio = None \<rparr>) salesMap))"

text \<open>A missing \<open>turnoverRatio\<close> is \<open>undefined\<close>, which subtracts as NaN.\<close>

fun ratio_of :: "TopProduct \<Rightarrow> jsnum" where
  "ratio_of tp = (case turnoverRatio tp of None \<Rightarrow> NaN | Some r \<Rightarrow> r)"

definition lowestTurnoverEntry :: "sales_map \<Rightarrow> Product \<Rightarrow> TopProduct" where
  "lowestTurnoverEntry salesMap p =
     \<lparr> tp_id = p_id p, tp_name = p_name p,
       quantitySold = or_zero (map_get salesMap (p_id p)),
       currentStock = p_stock p,
       turnoverRatio = Some (js_div (or_zero (map_get salesMap (p_id p))) (p_stock p)) \<rparr>"

definition top10LowestTurnoverProducts :: "sales_map \<Rightarrow> Product list \<Rightarrow> TopProduct list" where
  "top10LowestTurnoverProducts salesMap products =
     take 10 (js_sort (\<lambda>a b. js_sub (ratio_of a) (ratio_of b))
       (map (lowestTurnoverEntry salesMap)
          (filter (\<lambda>p. js_gt (p_stock p) (Fin 0)) products)))"

text \<open>
  \<open>toLocaleDateString\<close>, the calendar day of a time value in the shop's time zone as the
  runtime prints it, is a parameter of the model.
\<close>

definition salesByDay :: "(jsnum \<Rightarrow> jsstring) \<Rightarrow> TicketSale list \<Rightarrow> sales_map" where
  "salesByDay toLocaleDateString sales =
     foldl (\<lambda>m sale.
        (let day = toLocaleDateString (sale_timestamp sale)
         in map_set day (js_add (or_zero (map_get m day)) (sale_total sale)) m)) [] sales"

definition top5SalesPeaks :: "(jsnum \<Rightarrow> jsstring) \<Rightarrow> TicketSale list \<Rightarrow> SalesPeak list" where
  "top5SalesPeaks toLocaleDateString sales =
     take 5 (js_sort (\<lambda>a b. js_sub (peak_total b) (peak_total a))
       (map (\<lambda>(date, total). \<lparr> peak_date = date, peak_total = total \<rparr>)
          (salesByDay toLocaleDateString sales)))"

subsection \<open>Stock level summary\<close>

text \<open>The bucket whose counter the loop body increments for one product.\<close>

definition stockLevelBucket :: "jsnum \<Rightarrow> jsnum \<Rightarrow> jsnum \<Rightarrow> jsnum \<Rightarrow> ProductStatus" where
  "stockLevelBucket stock soldQty passed inMonth =
     (if js_eq stock (Fin 0) then RUPTURA
      else if js_gt soldQty (Fin 0) then
        (let projectedMonthlySales = js_mul (js_div soldQty passed) inMonth;
             dailySales = js_div projectedMonthlySales inMonth;
             daysOfStock = js_div stock dailySales
         in if js_le daysOfStock (Fin 7) then RISCO
            else if js_le daysOfStock (Fin 30) then SEGURANCA
            else EXCESSO)
      else EXCESSO)"

fun increment :: "ProductStatus \<Rightarrow> StockLevelSummary \<Rightarrow> StockLevelSummary" where
  "increment RUPTURA s = s\<lparr>ruptura := Suc (ruptura s)\<rparr>"
| "increment RISCO s = s\<lparr>risco := Suc (risco s)\<rparr>"
| "increment SEGURANCA s = s\<lparr>seguranca := Suc (seguranca s)\<rparr>"
| "increment EXCESSO s = s\<lparr>excesso := Suc (excesso s)\<rparr>"

definition stockLevelSummary ::
  "sales_map \<Rightarrow> jsnum \<Rightarrow> jsnum \<Rightarrow> Product list \<Rightarrow> StockLevelSummary" where
  "stockLevelSummary salesMap passed inMonth products =
     foldl (\<lambda>s p. increment
                (stockLevelBucket (p_stock p) (or_zero (map_get salesMap (p_id p))) passed inMonth) s)
       \<lparr> ruptura = 0, risco = 0, seguranca = 0, excesso = 0 \<rparr> products"

subsection \<open>The KPI record\<close>

record KPIs =
  k_fixedCosts :: jsnum
  k_currentRevenue :: jsnum
  k_currentAvgContributionMargin :: jsnum
  k_breakEvenPoint :: jsnum
  k_currentNetProfit :: jsnum
  k_totalRevenueGoal :: jsnum
  k_progressPercentage :: jsnum
  k_monthlyForecast :: jsnum
  k_goals :: KpiGoals
  k_actualInventoryTurnover :: jsnum
  k_projectedInventoryTurnover :: jsnum
  k_stockLevelSummary :: StockLevelSummary
  k_top10SoldProducts :: "TopProduct list"
  k_lowestTurnoverProducts :: "TopProduct list"
  k_topSalesDays :: "SalesPeak list"

definition calculatedKpis ::
  "(jsnum \<Rightarrow> jsstring) \<Rightarrow> Period \<Rightarrow> KpiGoals \<Rightarrow> CashTransaction list \<Rightarrow> TicketSale list
     \<Rightarrow> Product list \<Rightarrow> KPIs" where
  "calculatedKpis toLocaleDateString per goals transactions ticketSales products =
     (let sales = salesThisMonth per ticketSales;
          txs = transactionsThisMonth per transactions;
          inMonth = daysInMonth per;
          passed = daysPassed per;
          revenue = currentRevenue sales;
          fixed = fixedCosts txs;
          cogs = variableCostOfProductsSold sales;
          totalVariableCosts = js_add cogs (variableCostOfServices txs);
          goal = totalRevenueGoal fixed goals;
          avgValue = averageInventoryValue products;
          salesMap = productSalesMap sales
      in \<lparr> k_fixedCosts = fixed,
           k_currentRevenue = revenue,
           k_currentAvgContributionMargin = currentAvgContributionMargin revenue totalVariableCosts,
           k_breakEvenPoint = breakEvenPoint fixed goals,
           k_currentNetProfit = js_sub (js_sub revenue totalVariableCosts) fixed,
           k_totalRevenueGoal = goal,
           k_progressPercentage = progressPercentage revenue goal,
           k_monthlyForecast = monthlyForecast revenue passed inMonth,
           k_goals = goals,
           k_actualInventoryTurnover = actualInventoryTurnover cogs avgValue,
           k_projectedInventoryTurnover = projectedInventoryTurnover cogs avgValue passed inMonth,
           k_stockLevelSummary = stockLevelSummary salesMap passed inMonth products,
           k_top10SoldProducts = top10SoldProducts salesMap products,
           k_lowestTurnoverProducts = top10LowestTurnoverProducts salesMap products,
           k_topSalesDays = top5SalesPeaks toLocaleDateString sales \<rparr>)"

section \<open>Cash: the opening balance of a competency\<close>

text \<open>
  The \<open>openingBalance\<close> field of \<open>summary\<close>. The argument is \<open>None\<close> when no
  competency is selected (\<open>!competency\<close>) and otherwise the time value of
  \<open>competencyStartDate = new Date(year, month - 1, 1)\<close>, the first instant of the
  competency month.
\<close>

definition openingBalance :: "jsnum option \<Rightarrow> CashTransaction list \<Rightarrow> jsnum" where
  "openingBalance competency transactions =
     (case competency of
        None \<Rightarrow> Fin 0
      | Some competencyStartDate \<Rightarrow>
          (let previousTransactions =
                 filter (\<lambda>t. js_lt (tx_timestamp t) competencyStartDate) transactions
           in foldl (\<lambda>balance t.
                 if tx_status t = PAID
                 then js_add balance
                        (if tx_type t = INCOME then tx_amount t else js_neg (tx_amount t))
                 else balance) (Fin 0) previousTransactions))"

section \<open>The opening balance as the specification words it\<close>

definition signed_amount :: "CashTransaction \<Rightarrow> jsnum" where
  "signed_amount t = (if tx_type t = INCOME then tx_amount t else js_neg (tx_amount t))"

definition js_sum :: "jsnum list \<Rightarrow> jsnum" where
  "js_sum xs = foldl js_add (Fin 0) xs"

text \<open>
  The signed sum over the paid transactions strictly before the first instant of the
  month, added in the order of the collection.
\<close>

definition spec_openingBalance :: "jsnum \<Rightarrow> CashTransaction list \<Rightarrow> jsnum" where
  "spec_openingBalance monthStart txs =
     js_sum (map signed_amount
       (filter (\<lambda>t. tx_status t = PAID \<and> js_lt (tx_timestamp t) monthStart) txs))"

section \<open>Well-formed inputs and finite results\<close>







section \<open>Sample data\<close>

definition sample_product :: Product where
  "sample_product = \<lparr> p_id = [65], p_name = [66], p_cost = Fin 10, p_stock = Fin 5 \<rparr>"

definition oversold_product :: Product where
  "oversold_product = \<lparr> p_id = [67], p_name = [68], p_cost = Fin 10, p_stock = Fin (- 1) \<rparr>"

definition sample_goals :: KpiGoals where
  "sample_goals =
     \<lparr> predictedAvgMargin = Fin 40, netProfit = Fin 5000, inventoryTurnoverGoal = Fin (3 / 2) \<rparr>"

text \<open>An open month of 30 days seen on its 10th day, and a closed month of 31 days.\<close>

definition open_month :: Period where
  "open_month =
     \<lparr> startOfMonth = Fin 0, endOfMonth = Fin 100, isCurrentMonth = True,
       daysInMonth = Fin 30, nowDate = Fin 10 \<rparr>"

definition closed_month :: Period where
  "closed_month =
     \<lparr> startOfMonth = Fin 0, endOfMonth = Fin 100, isCurrentMonth = False,
       daysInMonth = Fin 31, nowDate = Fin 10 \<rparr>"

definition sample_sale :: TicketSale where
  "sample_sale =
     \<lparr> sale_items = [\<lparr> si_item = ProductItem sample_product, si_quantity = Fin 2,
                       si_type = TProduct \<rparr>],
       sale_total = Fin 50, sale_timestamp = Fin 7 \<rparr>"

definition later_sale :: TicketSale where
  "later_sale = sample_sale \<lparr> sale_timestamp := Fin 200 \<rparr>"

text \<open>A closed month of 30 days, a ticket of 1000 and a ticket of \<open>2 ^ 1023\<close> (about 9e307).\<close>

definition closed_month_30 :: Period where
  "closed_month_30 = closed_month \<lparr> daysInMonth := Fin 30 \<rparr>"

definition thousand_sale :: TicketSale where
  "thousand_sale = \<lparr> sale_items = [], sale_total = Fin 1000, sale_timestamp = Fin 7 \<rparr>"



definition no_day :: "jsnum \<Rightarrow> jsstring" where
  "no_day d = []"

section \<open>Validation module: strings\<close>

text \<open>A string literal of the source, as code units.\<close>

definition str :: "string \<Rightarrow> jsstring" where
  "str s = map of_char s"

definition isDigit :: "nat \<Rightarrow> bool" where
  "isDigit c = (48 \<le> c \<and> c \<le> 57)"

text \<open>\<open>value.replace(/\D/g, '')\<close>.\<close>

definition onlyDigits :: "jsstring \<Rightarrow> jsstring" where
  "onlyDigits s = filter isDigit s"

text \<open>
  \<open>parseInt\<close> of a one-character string, and the numeric value of a character in a
  product: on a digit, its value. Both are applied to cleaned strings only.
\<close>

definition digitValue :: "nat \<Rightarrow> int" where
  "digitValue c = int c - 48"

text \<open>\<open>/^(\d)\1{n}$/\<close>: one digit followed by \<open>n\<close> copies of it.\<close>

fun repeatedDigit :: "nat \<Rightarrow> jsstring \<Rightarrow> bool" where
  "repeatedDigit n [] = False"
| "repeatedDigit n (c # cs) = (isDigit c \<and> length cs = n \<and> list_all (\<lambda>x. x = c) cs)"

subsection \<open>validateCPF\<close>

text \<open>
  The two loops \<open>for (i = 1; i <= n; i++) sum += parseInt(cpf.substring(i - 1, i)) * (k - i)\<close>
  with \<open>n = 9, k = 11\<close> and \<open>n = 10, k = 12\<close>.
\<close>

definition cpfSum :: "nat \<Rightarrow> int \<Rightarrow> jsstring \<Rightarrow> int" where
  "cpfSum n k cpf = fold (\<lambda>i sum. sum + digitValue (cpf ! (i - 1)) * (k - int i)) [1..<Suc n] 0"

definition cpfRemainder :: "int \<Rightarrow> int" where
  "cpfRemainder acc =
     (let remainder = (acc * 10) mod 11
      in if remainder = 10 \<or> remainder = 11 then 0 else remainder)"

definition validateCPF :: "jsstring \<Rightarrow> bool" where
  "validateCPF value =
     (let cpf = onlyDigits value in
      if length cpf \<noteq> 11 \<or> repeatedDigit 10 cpf then False
      else if cpfRemainder (cpfSum 9 11 cpf) \<noteq> digitValue (cpf ! 9) then False
      else if cpfRemainder (cpfSum 10 12 cpf) \<noteq> digitValue (cpf ! 10) then False
      else True)"

subsection \<open>validateCNPJ\<close>

text \<open>
  One pass of \<open>for (i = size; i >= 1; i--) { sum += numbers.charAt(size - i) * pos--;
  if (pos < 2) pos = 9; }\<close> from \<open>sum = 0, pos = size - 7\<close>, followed by
  \<open>sum % 11 < 2 ? 0 : 11 - (sum % 11)\<close>. The source runs it for \<open>size = 12\<close> and
  for \<open>size = 13\<close>; \<open>sz\<close> and \<open>acc\<close> stand for its \<open>size\<close> and \<open>sum\<close>.
\<close>

definition cnpjStep :: "nat \<Rightarrow> jsstring \<Rightarrow> nat \<Rightarrow> int \<times> int \<Rightarrow> int \<times> int" where
  "cnpjStep sz numbers i state =
     (case state of (acc, pos) \<Rightarrow>
        (acc + digitValue (numbers ! (sz - i)) * pos,
         if pos - 1 < 2 then 9 else pos - 1))"

definition cnpjResult :: "nat \<Rightarrow> jsstring \<Rightarrow> int" where
  "cnpjResult sz cnpj =
     (let numbers = take sz cnpj;
          acc = fst (fold (cnpjStep sz numbers) (rev [1..<Suc sz]) (0, int sz - 7))
      in if acc mod 11 < 2 then 0 else 11 - acc mod 11)"

definition validateCNPJ :: "jsstring \<Rightarrow> bool" where
  "validateCNPJ value =
     (let cnpj = onlyDigits value in
      if length cnpj \<noteq> 14 \<or> repeatedDigit 13 cnpj then False
      else (let sz = length cnpj - 2;
                digits = drop sz cnpj
            in if cnpjResult sz cnpj \<noteq> digitValue (digits ! 0) then False
               else if cnpjResult (sz + 1) cnpj \<noteq> digitValue (digits ! 1) then False
               else True))"

subsection \<open>validateRegister and formatRegister\<close>

definition validateRegister :: "jsstring \<Rightarrow> bool" where
  "validateRegister value =
     (let cleanValue = onlyDigits value in
      if length cleanValue = 0 then True
      else if length cleanValue = 11 then validateCPF cleanValue
      else if length cleanValue = 14 then validateCNPJ cleanValue
      else False)"

text \<open>
  \<open>s.replace(/(\d{n})(\d)/, '$1' + sep + '$2')\<close>: at the leftmost place where \<open>n + 1\<close>
  digits follow each other, the separator goes in after the first \<open>n\<close> of them.
\<close>

fun replaceDigits :: "nat \<Rightarrow> nat \<Rightarrow> jsstring \<Rightarrow> jsstring" where
  "replaceDigits n sep [] = []"
| "replaceDigits n sep (c # cs) =
     (if n < length (c # cs) \<and> list_all isDigit (take (Suc n) (c # cs))
      then take n (c # cs) @ sep # drop n (c # cs)
      else c # replaceDigits n sep cs)"

text \<open>
  \<open>s.replace(/(\d{n})(\d{1,2})$/, '$1' + sep + '$2')\<close>: the leftmost place from which
  \<open>n + 1\<close> or \<open>n + 2\<close> digits run to the end of the string.
\<close>

fun replaceDigitsEnd :: "nat \<Rightarrow> nat \<Rightarrow> jsstring \<Rightarrow> jsstring" where
  "replaceDigitsEnd n sep [] = []"
| "replaceDigitsEnd n sep (c # cs) =
     (if (length (c # cs) = n + 1 \<or> length (c # cs) = n + 2) \<and> list_all isDigit (c # cs)
      then take n (c # cs) @ sep # drop n (c # cs)
      else c # replaceDigitsEnd n sep cs)"

definition dot :: nat where "dot = 46"
definition dash :: nat where "dash = 45"
definition slash :: nat where "slash = 47"

definition formatRegister :: "jsstring \<Rightarrow> jsstring" where
  "formatRegister value =
     (if value = [] then []
      else (let cleanValue = onlyDigits value in
            if length cleanValue \<le> 11
            then replaceDigitsEnd 3 dash (replaceDigits 3 dot (replaceDigits 3 dot cleanValue))
            else replaceDigitsEnd 4 dash (replaceDigits 3 slash (replaceDigits 3 dot
                   (replaceDigits 2 dot (take 14 cleanValue))))))"

subsection \<open>formatName\<close>

text \<open>
  \<open>String.prototype.trim\<close> removes the white space and line terminator code units of
  ECMAScript from both ends.
\<close>

definition isWhiteSpace :: "nat \<Rightarrow> bool" where
  "isWhiteSpace c =
     (c \<in> set [9, 10, 11, 12, 13, 32, 160, 5760, 8232, 8233, 8239, 8287, 12288, 65279]
      \<or> (8192 \<le> c \<and> c \<le> 8202))"

definition trim :: "jsstring \<Rightarrow> jsstring" where
  "trim s = rev (dropWhile isWhiteSpace (rev (dropWhile isWhiteSpace s)))"

text \<open>
  Case mapping of the Basic Latin and Latin-1 Supplement blocks (U+0000 to U+00FF), one
  code unit at a time: the letters A-Z and U+00C0 to U+00DE without the multiplication
  sign have a lowercase 32 above; upper case is the inverse, with sharp s mapped to SS, y
  with diaeresis to U+0178 and the micro sign to U+039C. The model leaves code units from
  U+0100 on unchanged, which is what the runtime does only for uncased characters.
\<close>

definition lowerUnit :: "nat \<Rightarrow> nat" where
  "lowerUnit c =
     (if (65 \<le> c \<and> c \<le> 90) \<or> (192 \<le> c \<and> c \<le> 222 \<and> c \<noteq> 215) then c + 32 else c)"

definition upperUnits :: "nat \<Rightarrow> jsstring" where
  "upperUnits c =
     (if (97 \<le> c \<and> c \<le> 122) \<or> (224 \<le> c \<and> c \<le> 254 \<and> c \<noteq> 247) then [c - 32]
      else if c = 223 then [83, 83]
      else if c = 255 then [376]
      else if c = 181 then [924]
      else [c])"

definition toLowerCase :: "jsstring \<Rightarrow> jsstring" where
  "toLowerCase s = map lowerUnit s"

definition toUpperCase :: "jsstring \<Rightarrow> jsstring" where
  "toUpperCase s = concat (map upperUnits s)"

text \<open>\<open>s.split(' ')\<close>: the pieces between single spaces; the empty string gives one empty piece.\<close>

fun split_space :: "jsstring \<Rightarrow> jsstring list" where
  "split_space [] = [[]]"
| "split_space (c # cs) =
     (if c = 32 then [] # split_space cs
      else (case split_space cs of [] \<Rightarrow> [[c]] | w # ws \<Rightarrow> (c # w) # ws))"

fun join_space :: "jsstring list \<Rightarrow> jsstring" where
  "join_space [] = []"
| "join_space [w] = w"
| "join_space (w # ws) = w @ 32 # join_space ws"

definition lowercasePrefixes :: "jsstring list" where
  "lowercasePrefixes =
     [str ''e'', str ''da'', str ''de'', str ''di'', str ''do'', str ''dos'', str ''du'',
      str ''das'']"

text \<open>The own properties of the object literal \<open>specialCases\<close>; 39 is the apostrophe.\<close>

definition specialCases :: "(jsstring \<times> jsstring) list" where
  "specialCases =
     [(str ''ii'', str ''II''), (str ''iii'', str ''III''), (str ''iv'', str ''IV''),
      (str ''v'', str ''V''), (str ''x'', str ''X''), (str ''mc'', str ''Mc''),
      (str ''mac'', str ''Mac''), (str ''o'' @ [39], str ''O'' @ [39])]"

text \<open>
  What the callback of \<open>map\<close> can return: a string, or one of the two objects that the
  lookup \<open>specialCases[lowerWord]\<close> finds on \<open>Object.prototype\<close>.
\<close>

datatype word_value = Text jsstring | ObjectFunction | ObjectPrototype

text \<open>
  \<open>specialCases[lowerWord]\<close>. \<open>specialCases\<close> is an object literal, so a key that is
  not an own property is looked up on \<open>Object.prototype\<close>. Of the properties there only
  \<open>constructor\<close> (the function \<open>Object\<close>) and \<open>__proto__\<close> (\<open>Object.prototype\<close>
  itself) have names without an upper-case letter, and \<open>lowerWord\<close> is lower case.
  Every value found is truthy.
\<close>

definition specialCasesGet :: "jsstring \<Rightarrow> word_value option" where
  "specialCasesGet key =
     (case map_of specialCases key of
        Some v \<Rightarrow> Some (Text v)
      | None \<Rightarrow>
          (if key = str ''constructor'' then Some ObjectFunction
           else if key = str ''__proto__'' then Some ObjectPrototype
           else None))"

definition formatWord :: "jsstring \<Rightarrow> nat \<Rightarrow> word_value" where
  "formatWord word index =
     (let lowerWord = toLowerCase word in
      case specialCasesGet lowerWord of
        Some v \<Rightarrow> v
      | None \<Rightarrow>
          (if lowerWord \<in> set lowercasePrefixes \<and> index \<noteq> 0 then Text lowerWord
           else Text (toUpperCase (take 1 word) @ drop 1 word)))"

text \<open>
  \<open>join\<close> converts every element to a string: the function \<open>Object\<close> prints as its
  native source text (as V8 and JavaScriptCore print it) and \<open>Object.prototype\<close> as
  \<open>[object Object]\<close>.
\<close>

fun toText :: "word_value \<Rightarrow> jsstring" where
  "toText (Text s) = s"
| "toText ObjectFunction = str ''function Object() { [native code] }''"
| "toText ObjectPrototype = str ''[object Object]''"

text \<open>The argument is \<open>None\<close> for a value that is not a string.\<close>

definition formatName :: "jsstring option \<Rightarrow> jsstring" where
  "formatName name =
     (case name of
        None \<Rightarrow> []
      | Some n \<Rightarrow>
          (if n = [] then []
           else join_space (map toText
                  (filter (\<lambda>word. word \<noteq> Text [])
                     (map (\<lambda>(index, word). formatWord word index)
                        (enumerate 0 (split_space (toLowerCase (trim n)))))))))"

section \<open>The tax ID check as the specification words it\<close>

text \<open>
  A mod-11 check digit of a weighted sum is 11 minus the remainder, and 0 when the
  remainder is below 2. For a personal ID the weights fall from \<open>n + 1\<close> to 2 over the
  \<open>n\<close> digits before the check digit; for a corporate ID they cycle through 2..9 from the
  rightmost of those digits leftwards.
\<close>

definition mod11CheckDigit :: "int \<Rightarrow> int" where
  "mod11CheckDigit acc = (if acc mod 11 < 2 then 0 else 11 - acc mod 11)"

definition weightedSum :: "int list \<Rightarrow> int list \<Rightarrow> int" where
  "weightedSum ds ws = sum_list (map2 (*) ds ws)"

definition personWeights :: "nat \<Rightarrow> int list" where
  "personWeights n = map int (rev [2..<n + 2])"

definition corporateWeights :: "nat \<Rightarrow> int list" where
  "corporateWeights n = rev (map (\<lambda>j. 2 + int (j mod 8)) [0..<n])"

definition allIdentical :: "jsstring \<Rightarrow> bool" where
  "allIdentical ds = (case ds of [] \<Rightarrow> True | c # cs \<Rightarrow> list_all (\<lambda>x. x = c) cs)"

definition checkDigitOk :: "(nat \<Rightarrow> int list) \<Rightarrow> jsstring \<Rightarrow> nat \<Rightarrow> bool" where
  "checkDigitOk weights ds n =
     (digitValue (ds ! n) = mod11CheckDigit (weightedSum (map digitValue (take n ds)) (weights n)))"

definition spec_isValidTaxId :: "jsstring \<Rightarrow> bool" where
  "spec_isValidTaxId input =
     (let ds = onlyDigits input in
      if ds = [] then True
      else if length ds = 11
        then \<not> allIdentical ds \<and> checkDigitOk personWeights ds 9 \<and> checkDigitOk personWeights ds 10
      else if length ds = 14
        then \<not> allIdentical ds \<and> checkDigitOk corporateWeights ds 12
             \<and> checkDigitOk corporateWeights ds 13
      else False)"

section \<open>Facts about numbers\<close>

lemma js_le_NaN_right [simp]: "js_le a NaN = False"
  by (cases a) simp_all

lemma js_lt_NaN_right [simp]: "js_lt a NaN = False"
  by (cases a) simp_all

lemma js_div_NaN_right [simp]: "js_div a NaN = NaN"
  by (cases a) simp_all

lemma not_gt_not_le_zero:
  "\<not> js_gt d (Fin 0) \<Longrightarrow> \<not> js_le d (Fin 0) \<Longrightarrow> d = NaN"
  by (cases d) (auto simp: js_gt_def)

lemma gt_zero_not_le_zero: "js_gt d (Fin 0) \<Longrightarrow> \<not> js_le d (Fin 0)"
  by (cases d) (auto simp: js_gt_def)

section \<open>Evaluating binary64 rounding\<close>

lemma bits_numeral: "bits (numeral k) = 1 + bits (numeral k div 2)"
  by (simp add: bits.simps)

lemma bits_0: "bits 0 = 0"
  by (simp add: bits.simps)

lemma bits_1: "bits 1 = 1"
  by (simp add: bits.simps)

lemma floor_numeral_div: "\<lfloor>(numeral a :: rat) / numeral b\<rfloor> = numeral a div numeral b"
  using floor_divide_of_int_eq [of "numeral a" "numeral b", where ?'a = rat] by simp

lemma ceiling_numeral_div:
  "\<lceil>(numeral a :: rat) / numeral b\<rceil> = - (- numeral a div numeral b)"
  using floor_divide_of_int_eq [of "- numeral a" "numeral b", where ?'a = rat]
  by (simp add: ceiling_def)

lemmas b64_eval =
  b64_def exponent_def round_even_def pow2_def fl_add_def fl_sub_def fl_mul_def fl_div_def
  Let_def bits_numeral bits_0 bits_1 signed_inf_def floor_numeral_div ceiling_numeral_div

text \<open>
  Known values of the runtime: \<open>1 / 10\<close> is \<open>3602879701896397 / 2 ^ 55\<close>; a tie goes to
  the even significand, down for \<open>1 + 2 ^ -53\<close> and up for \<open>1 + 3 * 2 ^ -53\<close>;
  \<open>42 / (7 / 5)\<close> is \<open>30.000000000000004\<close>.
\<close>

lemma b64_samples:
  "fl_div (Fin 1) (Fin 10) = Fin (3602879701896397 / 2 ^ 55)
   \<and> fl_add (Fin 1) (Fin (1 / 2 ^ 53)) = Fin 1
   \<and> fl_add (Fin 1) (Fin (3 / 2 ^ 53)) = Fin (1 + 1 / 2 ^ 51)
   \<and> fl_div (Fin 42) (fl_div (Fin 7) (Fin 5)) = Fin (30 + 1 / 2 ^ 48)"
  by (simp add: b64_eval)


section \<open>The classifier follows the specified algorithm\<close>

lemma productStatus_spec:
  "status_name (productStatus stock soldQty today) = spec_classify stock soldQty today"
proof (cases "js_gt (js_div soldQty today) (Fin 0)")
  case True
  then show ?thesis
    using gt_zero_not_le_zero [OF True]
    by (simp add: productStatus_def spec_classify_def Let_def)
next
  case False
  show ?thesis
  proof (cases "js_le (js_div soldQty today) (Fin 0)")
    case True
    with False show ?thesis
      by (simp add: productStatus_def spec_classify_def Let_def)
  next
    case nle: False
    have "js_div soldQty today = NaN"
      using not_gt_not_le_zero [OF False nle] .
    then show ?thesis
      by (simp add: productStatus_def spec_classify_def Let_def js_gt_def)
  qed
qed

text \<open>
  C1. Every record that \<open>productsWithMetrics\<close> returns carries the status that the
  specification's algorithm gives for the product's stock, the units sold this month
  and the days elapsed; and stock 100 with 50 units sold in 10 days is Healthy
  (\<open>SEGURANCA\<close>).
\<close>

theorem classifier_follows_spec:
  "map (\<lambda>m. status_name (pm_status m)) (productsWithMetrics start today ticketSales products)
     = map (\<lambda>p. spec_classify (p_stock p)
                  (or_zero (map_get (productSalesMap
                     (filter (\<lambda>sale. js_ge (sale_timestamp sale) start) ticketSales)) (p_id p)))
                  today) products
   \<and> status_name (productStatus stock soldQty days) = spec_classify stock soldQty days
   \<and> productStatus (Fin 100) (Fin 50) (Fin 10) = SEGURANCA
   \<and> spec_classify (Fin 100) (Fin 50) (Fin 10) = Healthy"
  by (simp add: productsWithMetrics_def Let_def productStatus_spec comp_def)
    (simp add: productStatus_def spec_classify_def js_gt_def)

section \<open>Finite arithmetic stays finite\<close>








lemma mul_div_cancel: "0 < d \<Longrightarrow> js_mul (js_div r (Fin d)) (Fin d) = r"
  by (cases r) (auto simp: signed_inf_def)

lemma js_mul_one: "js_mul x (Fin 1) = x"
  by (cases x) (auto simp: signed_inf_def)

subsection \<open>The sales maps hold finite sums\<close>









subsection \<open>Sorting keeps the elements\<close>




lemma js_insert_head:
  "\<forall>y \<in> set ys. \<not> js_gt (cmp x y) (Fin 0) \<Longrightarrow> js_insert cmp x ys = x # ys"
  by (cases ys) simp_all

text \<open>Elements that all compare equal stay in their input order.\<close>

lemma js_sort_identity:
  "\<forall>x \<in> set xs. \<forall>y \<in> set xs. \<not> js_gt (cmp x y) (Fin 0) \<Longrightarrow> js_sort cmp xs = xs"
proof (induction xs)
  case Nil
  then show ?case by (simp add: js_sort_def)
next
  case (Cons a xs)
  then have "js_sort cmp xs = xs" by simp
  moreover have "js_insert cmp a xs = a # xs"
    using Cons.prems by (intro js_insert_head) simp
  ultimately show ?case by (simp add: js_sort_def)
qed

subsection \<open>Each KPI is finite\<close>

















section \<open>Break-even revenue and the revenue goal\<close>





section \<open>Closed months\<close>

text \<open>
  When the competency is not the current month the days elapsed are the month length.
  With exact operations the forecast is then the realised revenue and the projected
  inventory turnover is the actual one.
\<close>

lemma closed_month_exact:
  assumes "\<not> isCurrentMonth per" and "daysInMonth per = Fin d" and "0 < d"
  shows "daysPassed per = daysInMonth per
    \<and> k_monthlyForecast (calculatedKpis f per goals transactions ticketSales products)
        = k_currentRevenue (calculatedKpis f per goals transactions ticketSales products)
    \<and> k_projectedInventoryTurnover (calculatedKpis f per goals transactions ticketSales products)
        = k_actualInventoryTurnover (calculatedKpis f per goals transactions ticketSales products)"
  using assms
  by (simp add: calculatedKpis_def Let_def daysPassed_def monthlyForecast_def mul_div_cancel
      projectedInventoryTurnover_def actualInventoryTurnover_def js_mul_one js_gt_def)

text \<open>
  C8 fails on the code. The source comment reads \<open>If current month, project linearly.
  If past, use actual\<close>, but for a past month the code still computes
  \<open>(currentRevenue / daysPassed) * daysInMonth\<close>, and the two roundings do not cancel:
  for a closed month of 30 days with one ticket of 1000 the revenue is 1000 and the
  forecast is \<open>1000 + 2 ^ -43\<close>, which prints as \<open>1000.0000000000001\<close>.
\<close>

theorem closed_month_forecast_rounds:
  "\<not> isCurrentMonth closed_month_30
   \<and> daysPassed closed_month_30 = daysInMonth closed_month_30
   \<and> daysInMonth closed_month_30 = Fin 30
   \<and> currentRevenue64 [thousand_sale] = Fin 1000
   \<and> monthlyForecast64 (currentRevenue64 [thousand_sale]) (daysPassed closed_month_30)
        (daysInMonth closed_month_30) = Fin (1000 + 1 / 2 ^ 43)
   \<and> monthlyForecast64 (currentRevenue64 [thousand_sale]) (daysPassed closed_month_30)
        (daysInMonth closed_month_30) \<noteq> currentRevenue64 [thousand_sale]"
proof -
  have rev: "currentRevenue64 [thousand_sale] = Fin 1000"
    by (simp add: currentRevenue64_def thousand_sale_def b64_eval)
  have days: "daysPassed closed_month_30 = Fin 30" "daysInMonth closed_month_30 = Fin 30"
    by (simp_all add: daysPassed_def closed_month_30_def closed_month_def)
  have forecast: "monthlyForecast64 (Fin 1000) (Fin 30) (Fin 30) = Fin (1000 + 1 / 2 ^ 43)"
    by (simp add: monthlyForecast64_def js_gt_def b64_eval)
  show ?thesis
    unfolding rev days forecast
    by (simp add: closed_month_30_def closed_month_def)
qed

section \<open>Opening balance\<close>

lemma opening_fold:
  "foldl (\<lambda>balance t.
            if tx_status t = PAID
            then js_add balance (if tx_type t = INCOME then tx_amount t else js_neg (tx_amount t))
            else balance) acc (filter (\<lambda>t. js_lt (tx_timestamp t) start) txs)
   = foldl js_add acc (map signed_amount
       (filter (\<lambda>t. tx_status t = PAID \<and> js_lt (tx_timestamp t) start) txs))"
  by (induction txs arbitrary: acc) (simp_all add: signed_amount_def)

text \<open>
  C6. The opening balance of a competency is the signed sum, income positive and expense
  negative, over exactly the transactions that are paid and strictly before the first
  instant of the month; pending transactions and transactions at or after that instant
  add nothing.
\<close>

theorem openingBalance_signed_sum:
  "openingBalance (Some start) txs = spec_openingBalance start txs"
  by (simp add: openingBalance_def spec_openingBalance_def js_sum_def opening_fold Let_def)

section \<open>Rankings without sales\<close>

lemma zero_ratio: "js_gt s (Fin 0) \<Longrightarrow> js_div (Fin 0) s = Fin 0"
  by (cases s) (auto simp: js_gt_def)

lemma lowest_empty_map:
  "top10LowestTurnoverProducts [] products =
     take 10 (map (\<lambda>p. \<lparr> tp_id = p_id p, tp_name = p_name p, quantitySold = Fin 0,
                          currentStock = p_stock p, turnoverRatio = Some (Fin 0) \<rparr>)
               (filter (\<lambda>p. js_gt (p_stock p) (Fin 0)) products))"
proof -
  let ?ps = "filter (\<lambda>p. js_gt (p_stock p) (Fin 0)) products"
  have m: "map (lowestTurnoverEntry []) ?ps
        = map (\<lambda>p. \<lparr> tp_id = p_id p, tp_name = p_name p, quantitySold = Fin 0,
                          currentStock = p_stock p, turnoverRatio = Some (Fin 0) \<rparr>) ?ps"
    by (rule map_cong) (auto simp: lowestTurnoverEntry_def map_get_def zero_ratio)
  have "js_sort (\<lambda>a b. js_sub (ratio_of a) (ratio_of b)) (map (lowestTurnoverEntry []) ?ps)
        = map (lowestTurnoverEntry []) ?ps"
    unfolding m by (rule js_sort_identity) (auto simp: js_sub_def js_gt_def)
  then show ?thesis
    by (simp add: top10LowestTurnoverProducts_def m)
qed

text \<open>
  C7, as stated, fails for the lowest-turnover ranking: with no sale at all and one
  product in stock it returns that product, with turnover 0, not the empty list.
\<close>

theorem lowest_turnover_not_empty_counterexample:
  "salesThisMonth open_month [] = []
   \<and> k_lowestTurnoverProducts
        (calculatedKpis no_day open_month sample_goals [] [] [sample_product])
      = [\<lparr> tp_id = [65], tp_name = [66], quantitySold = Fin 0, currentStock = Fin 5,
            turnoverRatio = Some (Fin 0) \<rparr>]
   \<and> k_lowestTurnoverProducts
        (calculatedKpis no_day open_month sample_goals [] [] [sample_product]) \<noteq> []"
  by (simp add: calculatedKpis_def Let_def salesThisMonth_def productSalesMap_def
      top10LowestTurnoverProducts_def lowestTurnoverEntry_def map_get_def js_gt_def js_sort_def
      sample_product_def)

text \<open>
  C7, amended. When no ticket falls in the competency period, the best sellers and the
  sales peaks are empty lists; the lowest-turnover ranking lists the first ten products
  with stock greater than 0, in catalog order, each with 0 units sold and turnover 0, and
  so is empty exactly when no product has stock greater than 0. The functions of the
  model are total: none raises.
\<close>

theorem rankings_without_sales:
  assumes "salesThisMonth per ticketSales = []"
  shows "k_top10SoldProducts (calculatedKpis f per goals transactions ticketSales products) = []
   \<and> k_topSalesDays (calculatedKpis f per goals transactions ticketSales products) = []
   \<and> k_lowestTurnoverProducts (calculatedKpis f per goals transactions ticketSales products) =
       take 10 (map (\<lambda>p. \<lparr> tp_id = p_id p, tp_name = p_name p, quantitySold = Fin 0,
                          currentStock = p_stock p, turnoverRatio = Some (Fin 0) \<rparr>)
               (filter (\<lambda>p. js_gt (p_stock p) (Fin 0)) products))
   \<and> (k_lowestTurnoverProducts (calculatedKpis f per goals transactions ticketSales products) = []
        \<longleftrightarrow> filter (\<lambda>p. js_gt (p_stock p) (Fin 0)) products = [])"
  using assms
  by (simp add: calculatedKpis_def Let_def productSalesMap_def top10SoldProducts_def js_sort_def
      top5SalesPeaks_def salesByDay_def lowest_empty_map)

text \<open>A catalog with one product and a single ticket dated after the period.\<close>

theorem rankings_without_sales_witness:
  "salesThisMonth open_month [later_sale] = []
   \<and> k_top10SoldProducts
        (calculatedKpis no_day open_month sample_goals [] [later_sale] [sample_product]) = []
   \<and> k_topSalesDays
        (calculatedKpis no_day open_month sample_goals [] [later_sale] [sample_product]) = []"
proof -
  have h: "salesThisMonth open_month [later_sale] = []"
    by (simp add: salesThisMonth_def in_period_def open_month_def later_sale_def js_ge_def)
  show ?thesis
    using h rankings_without_sales [OF h, of no_day sample_goals "[]" "[sample_product]"]
    by simp
qed

section \<open>The two stock classifications\<close>

text \<open>
  For a stock that is not negative and positive day counts the dashboard's bucket is
  the status of the product list when the quotients and the product are exact. The
  dashboard divides the projected monthly sales again by the days in the month, which
  with rounding can move a product across a threshold.
\<close>

lemma stockLevelBucket_agrees:
  assumes "stock = Fin s" and "0 \<le> s" and "passed = Fin d" and "0 < d"
    and "inMonth = Fin m" and "0 < m"
  shows "stockLevelBucket stock sold passed inMonth = productStatus stock sold passed"
proof -
  have eq0: "js_eq stock (Fin 0) = js_le stock (Fin 0)"
    using assms by auto
  have daily: "js_div (js_mul (js_div sold passed) inMonth) inMonth = js_div sold passed"
    using assms by (cases sold) (auto simp: signed_inf_def)
  have pos: "js_gt sold (Fin 0) \<Longrightarrow> js_gt (js_div sold passed) (Fin 0)"
    using assms by (cases sold) (auto simp: signed_inf_def js_gt_def)
  show ?thesis
    using pos by (simp add: stockLevelBucket_def productStatus_def Let_def eq0 daily)
qed

text \<open>
  C10 fails on the code for a negative stock, which the stock adjustment field of the
  product form accepts. With stock -1, no sale, day 10 of a month of 30 days, the dashboard
  counts the product under \<open>excesso\<close> while the product list gives it \<open>RUPTURA\<close>; with
  2 units sold the dashboard's bucket is \<open>RISCO\<close>.
\<close>

theorem dashboard_negative_stock_differs:
  "k_stockLevelSummary
      (calculatedKpis no_day open_month sample_goals [] [] [oversold_product])
     = \<lparr> ruptura = 0, risco = 0, seguranca = 0, excesso = 1 \<rparr>
   \<and> map pm_status (productsWithMetrics (Fin 0) (Fin 10) [] [oversold_product]) = [RUPTURA]
   \<and> stockLevelBucket (Fin (- 1)) (Fin 2) (Fin 10) (Fin 30) = RISCO
   \<and> productStatus (Fin (- 1)) (Fin 2) (Fin 10) = RUPTURA"
  by (simp add: calculatedKpis_def Let_def stockLevelSummary_def salesThisMonth_def
      productSalesMap_def map_get_def stockLevelBucket_def productStatus_def js_gt_def
      productsWithMetrics_def daysPassed_def open_month_def oversold_product_def)

section \<open>Tax ID validation\<close>

lemma onlyDigits_idem: "onlyDigits (onlyDigits v) = onlyDigits v"
  by (simp add: onlyDigits_def)

lemma onlyDigits_all: "list_all isDigit (onlyDigits v)"
  by (simp add: onlyDigits_def list_all_iff)

lemma cpfRemainder_mod11: "cpfRemainder s = mod11CheckDigit s"
proof -
  define m where "m = s mod 11"
  have "0 \<le> m" and "m < 11"
    by (simp_all add: m_def)
  then have cases: "m = 0 \<or> m = 1 \<or> m = 2 \<or> m = 3 \<or> m = 4 \<or> m = 5 \<or> m = 6 \<or> m = 7
      \<or> m = 8 \<or> m = 9 \<or> m = 10"
    by arith
  have "(s * 10) mod 11 = (m * 10) mod 11"
    by (simp add: m_def mod_mult_left_eq)
  then have "cpfRemainder s = (if (m * 10) mod 11 = 10 \<or> (m * 10) mod 11 = 11 then 0 else (m * 10) mod 11)"
    by (simp add: cpfRemainder_def Let_def)
  moreover have "mod11CheckDigit s = (if m < 2 then 0 else 11 - m)"
    by (simp add: mod11CheckDigit_def m_def)
  ultimately show ?thesis
    using cases by auto
qed

lemma upt_1_10: "[1..<Suc 9] = [1, 2, 3, 4, 5, 6, 7, 8, 9]"
  by code_simp

lemma upt_1_11: "[1..<Suc 10] = [1, 2, 3, 4, 5, 6, 7, 8, 9, 10]"
  by code_simp

lemma upt_rev_12: "rev [1..<Suc 12] = [12, 11, 10, 9, 8, 7, 6, 5, 4, 3, 2, 1]"
  by code_simp

lemma upt_rev_13: "rev [1..<Suc 13] = [13, 12, 11, 10, 9, 8, 7, 6, 5, 4, 3, 2, 1]"
  by code_simp

lemma personWeights_9: "personWeights 9 = [10, 9, 8, 7, 6, 5, 4, 3, 2]"
  by code_simp

lemma personWeights_10: "personWeights 10 = [11, 10, 9, 8, 7, 6, 5, 4, 3, 2]"
  by code_simp

lemma corporateWeights_12: "corporateWeights 12 = [5, 4, 3, 2, 9, 8, 7, 6, 5, 4, 3, 2]"
  by code_simp

lemma corporateWeights_13: "corporateWeights 13 = [6, 5, 4, 3, 2, 9, 8, 7, 6, 5, 4, 3, 2]"
  by code_simp

lemma length_11:
  "length xs = 11 \<Longrightarrow> \<exists>a0 a1 a2 a3 a4 a5 a6 a7 a8 a9 a10. xs = [a0, a1, a2, a3, a4, a5, a6, a7, a8, a9, a10]"
  by (auto simp: numeral_eq_Suc length_Suc_conv)

lemma length_14:
  "length xs = 14 \<Longrightarrow> \<exists>a0 a1 a2 a3 a4 a5 a6 a7 a8 a9 a10 a11 a12 a13.
     xs = [a0, a1, a2, a3, a4, a5, a6, a7, a8, a9, a10, a11, a12, a13]"
  by (auto simp: numeral_eq_Suc length_Suc_conv)

lemma cpfSum_9:
  assumes "length d = 11"
  shows "cpfSum 9 11 d = weightedSum (map digitValue (take 9 d)) (personWeights 9)"
proof -
  from length_11 [OF assms] obtain a0 a1 a2 a3 a4 a5 a6 a7 a8 a9 a10
    where d: "d = [a0, a1, a2, a3, a4, a5, a6, a7, a8, a9, a10]" by blast
  show ?thesis
    unfolding d cpfSum_def weightedSum_def personWeights_9 upt_1_10 by simp
qed

lemma cpfSum_10:
  assumes "length d = 11"
  shows "cpfSum 10 12 d = weightedSum (map digitValue (take 10 d)) (personWeights 10)"
proof -
  from length_11 [OF assms] obtain a0 a1 a2 a3 a4 a5 a6 a7 a8 a9 a10
    where d: "d = [a0, a1, a2, a3, a4, a5, a6, a7, a8, a9, a10]" by blast
  show ?thesis
    unfolding d cpfSum_def weightedSum_def personWeights_10 upt_1_11 by simp
qed

lemma repeated_all: 
  "list_all isDigit d \<Longrightarrow> length d = Suc n \<Longrightarrow> repeatedDigit n d = allIdentical d"
  by (cases d) (auto simp: allIdentical_def)

lemma validateCPF_spec:
  assumes "list_all isDigit d" and "length d = 11"
  shows "validateCPF d = (\<not> allIdentical d \<and> checkDigitOk personWeights d 9 \<and> checkDigitOk personWeights d 10)"
proof -
  have od: "onlyDigits d = d"
    using assms(1) by (simp add: onlyDigits_def list_all_iff)
  have rep: "repeatedDigit 10 d = allIdentical d"
    using assms by (intro repeated_all) simp_all
  have c9: "checkDigitOk personWeights d 9 = (cpfRemainder (cpfSum 9 11 d) = digitValue (d ! 9))"
    unfolding checkDigitOk_def cpfRemainder_mod11 cpfSum_9 [OF assms(2)] by (rule eq_commute)
  have c10: "checkDigitOk personWeights d 10 = (cpfRemainder (cpfSum 10 12 d) = digitValue (d ! 10))"
    unfolding checkDigitOk_def cpfRemainder_mod11 cpfSum_10 [OF assms(2)] by (rule eq_commute)
  show ?thesis
    unfolding validateCPF_def od Let_def rep c9 c10 using assms(2) by simp
qed

lemma cnpjSum_12:
  assumes "length d = 14"
  shows "fst (fold (cnpjStep 12 (take 12 d)) (rev [1..<Suc 12]) (0, int 12 - 7))
     = weightedSum (map digitValue (take 12 d)) (corporateWeights 12)"
proof -
  from length_14 [OF assms] obtain a0 a1 a2 a3 a4 a5 a6 a7 a8 a9 a10 a11 a12 a13
    where d: "d = [a0, a1, a2, a3, a4, a5, a6, a7, a8, a9, a10, a11, a12, a13]" by blast
  show ?thesis
    unfolding d weightedSum_def corporateWeights_12 upt_rev_12
    by (simp add: cnpjStep_def)
qed

lemma cnpjSum_13:
  assumes "length d = 14"
  shows "fst (fold (cnpjStep 13 (take 13 d)) (rev [1..<Suc 13]) (0, int 13 - 7))
     = weightedSum (map digitValue (take 13 d)) (corporateWeights 13)"
proof -
  from length_14 [OF assms] obtain a0 a1 a2 a3 a4 a5 a6 a7 a8 a9 a10 a11 a12 a13
    where d: "d = [a0, a1, a2, a3, a4, a5, a6, a7, a8, a9, a10, a11, a12, a13]" by blast
  show ?thesis
    unfolding d weightedSum_def corporateWeights_13 upt_rev_13
    by (simp add: cnpjStep_def)
qed

lemma cnpjResult_12:
  assumes "length d = 14"
  shows "cnpjResult 12 d = mod11CheckDigit (weightedSum (map digitValue (take 12 d)) (corporateWeights 12))"
  unfolding cnpjResult_def Let_def cnpjSum_12 [OF assms] mod11CheckDigit_def by (rule refl)

lemma cnpjResult_13:
  assumes "length d = 14"
  shows "cnpjResult 13 d = mod11CheckDigit (weightedSum (map digitValue (take 13 d)) (corporateWeights 13))"
  unfolding cnpjResult_def Let_def cnpjSum_13 [OF assms] mod11CheckDigit_def by (rule refl)

lemma validateCNPJ_spec:
  assumes "list_all isDigit d" and "length d = 14"
  shows "validateCNPJ d = (\<not> allIdentical d \<and> checkDigitOk corporateWeights d 12 \<and> checkDigitOk corporateWeights d 13)"
proof -
  have od: "onlyDigits d = d"
    using assms(1) by (simp add: onlyDigits_def list_all_iff)
  have rep: "repeatedDigit 13 d = allIdentical d"
    using assms by (intro repeated_all) simp_all
  have n12: "drop 12 d ! 0 = d ! 12" and n13: "drop 12 d ! 1 = d ! 13"
    using assms(2) by simp_all
  have c12: "checkDigitOk corporateWeights d 12 = (cnpjResult 12 d = digitValue (d ! 12))"
    unfolding checkDigitOk_def cnpjResult_12 [OF assms(2)] by (rule eq_commute)
  have c13: "checkDigitOk corporateWeights d 13 = (cnpjResult 13 d = digitValue (d ! 13))"
    unfolding checkDigitOk_def cnpjResult_13 [OF assms(2)] by (rule eq_commute)
  show ?thesis
    unfolding validateCNPJ_def od Let_def rep c12 c13 using assms(2) by (simp add: n12 n13)
qed

lemma validateRegister_spec: "validateRegister v = spec_isValidTaxId v"
  using validateCPF_spec [OF onlyDigits_all, of v] validateCNPJ_spec [OF onlyDigits_all, of v]
  by (simp add: validateRegister_def spec_isValidTaxId_def Let_def)

lemma valid_person_id: "validateRegister (str ''52998224725'')"
  by code_simp

lemma repeated_person_id: "\<not> validateRegister (str ''11111111111'')"
  by code_simp

lemma short_id: "\<not> validateRegister (str ''123456789'')"
  by code_simp

lemma valid_corporate_id: "validateRegister (str ''11222333000181'')"
  by code_simp

text \<open>
  C3. \<open>validateRegister\<close> accepts the empty string; on 11 digits it is true exactly when
  both mod-11 check digits of the personal ID match and the digits are not all the same;
  on 14 digits exactly when both check digits under the weights cycling 2..9 match and
  the digits are not all the same; every other number of digits is rejected. The four
  sample IDs evaluate as the specification lists them.
\<close>

theorem validateRegister_checksums:
  "validateRegister v = spec_isValidTaxId v
   \<and> validateRegister []
   \<and> validateRegister (str ''52998224725'')
   \<and> \<not> validateRegister (str ''11111111111'')
   \<and> \<not> validateRegister (str ''123456789'')
   \<and> validateRegister (str ''11222333000181'')"
  using validateRegister_spec [of v] valid_person_id repeated_person_id short_id
    valid_corporate_id
  by (simp add: validateRegister_def onlyDigits_def)

section \<open>Masking keeps the digits\<close>

lemma onlyDigits_insert:
  assumes "\<not> isDigit sep"
  shows "onlyDigits (take n s @ sep # drop n s) = onlyDigits s"
proof -
  have "onlyDigits (take n s @ sep # drop n s) = filter isDigit (take n s) @ filter isDigit (drop n s)"
    using assms by (simp add: onlyDigits_def)
  also have "\<dots> = filter isDigit (take n s @ drop n s)"
    by (simp only: filter_append)
  finally show ?thesis
    by (simp add: onlyDigits_def)
qed

lemma onlyDigits_replaceDigits:
  "\<not> isDigit sep \<Longrightarrow> onlyDigits (replaceDigits n sep s) = onlyDigits s"
proof (induction s)
  case Nil
  then show ?case by simp
next
  case (Cons c cs)
  show ?case
  proof (cases "n < length (c # cs) \<and> list_all isDigit (take (Suc n) (c # cs))")
    case True
    then have "replaceDigits n sep (c # cs) = take n (c # cs) @ sep # drop n (c # cs)"
      by simp
    then show ?thesis
      using onlyDigits_insert [OF Cons.prems] by simp
  next
    case False
    then have "replaceDigits n sep (c # cs) = c # replaceDigits n sep cs"
      by auto
    then show ?thesis using Cons by (simp add: onlyDigits_def)
  qed
qed

lemma onlyDigits_replaceDigitsEnd:
  "\<not> isDigit sep \<Longrightarrow> onlyDigits (replaceDigitsEnd n sep s) = onlyDigits s"
proof (induction s)
  case Nil
  then show ?case by simp
next
  case (Cons c cs)
  show ?case
  proof (cases "(length (c # cs) = n + 1 \<or> length (c # cs) = n + 2) \<and> list_all isDigit (c # cs)")
    case True
    then have "replaceDigitsEnd n sep (c # cs) = take n (c # cs) @ sep # drop n (c # cs)"
      by simp
    then show ?thesis
      using onlyDigits_insert [OF Cons.prems] by simp
  next
    case False
    then have "replaceDigitsEnd n sep (c # cs) = c # replaceDigitsEnd n sep cs"
      by auto
    then show ?thesis using Cons by (simp add: onlyDigits_def)
  qed
qed

lemma separators: "\<not> isDigit dot" "\<not> isDigit dash" "\<not> isDigit slash"
  by (simp_all add: isDigit_def dot_def dash_def slash_def)

lemma onlyDigits_take: "onlyDigits (take n (onlyDigits v)) = take n (onlyDigits v)"
  by (auto simp: onlyDigits_def filter_id_conv dest: in_set_takeD)

lemma onlyDigits_formatRegister:
  "onlyDigits (formatRegister x) =
     (if length (onlyDigits x) \<le> 11 then onlyDigits x else take 14 (onlyDigits x))"
proof (cases "x = []")
  case True
  then show ?thesis by (simp add: formatRegister_def onlyDigits_def)
next
  case False
  then show ?thesis
    by (simp add: formatRegister_def Let_def onlyDigits_replaceDigits onlyDigits_replaceDigitsEnd
        separators onlyDigits_take) (simp add: onlyDigits_def)
qed

lemma validateRegister_digits: "validateRegister (onlyDigits v) = validateRegister v"
  by (simp add: validateRegister_def onlyDigits_def)

lemma masked_person_id: "formatRegister (str ''52998224725'') = str ''529.982.247-25''"
  by code_simp

lemma masked_corporate_id: "formatRegister (str ''11222333000181'') = str ''11.222.333/0001-81''"
  by code_simp

text \<open>
  C4. For a string of exactly 11 or exactly 14 digits, validating the masked string gives
  the verdict of validating the string itself.
\<close>

theorem validate_after_format:
  assumes "list_all isDigit x" and "length x = 11 \<or> length x = 14"
  shows "validateRegister (formatRegister x) = validateRegister x"
proof -
  have od: "onlyDigits x = x"
    using assms(1) by (simp add: onlyDigits_def list_all_iff)
  have same: "onlyDigits (formatRegister x) = x"
    using assms(2) by (auto simp: onlyDigits_formatRegister od)
  have "validateRegister (formatRegister x) = validateRegister (onlyDigits (formatRegister x))"
    by (rule validateRegister_digits [symmetric])
  also have "\<dots> = validateRegister x"
    by (simp only: same)
  finally show ?thesis .
qed

lemma person_id_digits: "list_all isDigit (str ''52998224725'')"
  by code_simp

lemma person_id_length: "length (str ''52998224725'') = 11"
  by code_simp

text \<open>The sample personal ID has 11 digits; masked or not, it validates the same.\<close>

theorem validate_after_format_witness:
  "list_all isDigit (str ''52998224725'')
   \<and> (length (str ''52998224725'') = 11 \<or> length (str ''52998224725'') = 14)
   \<and> validateRegister (formatRegister (str ''52998224725''))
       = validateRegister (str ''52998224725'')"
proof -
  have len: "length (str ''52998224725'') = 11 \<or> length (str ''52998224725'') = 14"
    using person_id_length by simp
  show ?thesis
    using person_id_digits len validate_after_format [OF person_id_digits len] by simp
qed

section \<open>Name formatting\<close>

lemmas formatName_defs =
  formatName_def trim_def isWhiteSpace_def toLowerCase_def lowerUnit_def formatWord_def
  specialCasesGet_def specialCases_def str_def lowercasePrefixes_def toUpperCase_def
  upperUnits_def Let_def

text \<open>The samples of the specification; 195 and 227 are A and a with tilde.\<close>

lemma formatName_joao:
  "formatName (Some (str ''JO'' @ [195] @ str ''O DA SILVA''))
     = str ''Jo'' @ [227] @ str ''o da Silva''"
  by (simp add: formatName_defs)

lemma formatName_ii: "formatName (Some (str ''ii'')) = str ''II''"
  by (simp add: formatName_defs)

lemma formatName_first_connector: "formatName (Some (str ''de souza'')) = str ''De Souza''"
  by (simp add: formatName_defs)

lemma formatName_spaces:
  "formatName (Some (str ''  maria   de  souza iii '')) = str ''Maria de Souza III''"
  by (simp add: formatName_defs)

lemma formatName_empty:
  "formatName None = [] \<and> formatName (Some []) = [] \<and> formatName (Some (str ''   '')) = []"
  by (simp add: formatName_defs)

text \<open>A word outside the two tables and the inherited keys is title-cased.\<close>

lemma formatWord_ordinary:
  assumes "specialCasesGet (toLowerCase word) = None"
    and "toLowerCase word \<notin> set lowercasePrefixes \<or> index = 0"
  shows "formatWord word index = Text (toUpperCase (take 1 word) @ drop 1 word)"
  using assms by (auto simp: formatWord_def Let_def)

text \<open>
  C9 fails on the code for the word \<open>constructor\<close>. It is in neither table, so the
  claim has it title-cased to \<open>Constructor\<close>; the lookup \<open>specialCases[lowerWord]\<close>
  finds the inherited property \<open>constructor\<close>, the callback returns the function
  \<open>Object\<close>, and \<open>join\<close> prints it. The word \<open>__proto__\<close> comes out as
  \<open>[object Object]\<close> in the same way.
\<close>

theorem formatName_inherited_key:
  "formatName (Some (str ''constructor'')) = str ''function Object() { [native code] }''
   \<and> toUpperCase (take 1 (str ''constructor'')) @ drop 1 (str ''constructor'')
       = str ''Constructor''
   \<and> formatName (Some (str ''constructor'')) \<noteq> str ''Constructor''
   \<and> formatName (Some (str ''__proto__'')) = str ''[object Object]''"
  by (simp add: formatName_defs)

end
